theory Spec2Isabelle
  imports Main "HOL-Library.Sublist"
begin

section \<open>Python values used by \<^verbatim>\<open>symbol.py\<close>\<close>

text \<open>
  The module is Python 2 (Jython inside Ghidra): a \<^verbatim>\<open>str\<close> is a sequence of
  bytes, modelled as \<^typ>\<open>string\<close>; integers are unbounded, modelled as \<^typ>\<open>int\<close>.
  Indexing a string out of range raises \<^verbatim>\<open>IndexError\<close>; slicing never raises.
  Negative positions count from the end.
\<close>

datatype py_error = IndexError | StructError

definition py_getitem :: "string \<Rightarrow> int \<Rightarrow> py_error + char" where
  "py_getitem s i =
     (if 0 \<le> i \<and> i < int (length s) then Inr (s ! nat i)
      else if i < 0 \<and> - int (length s) \<le> i then Inr (s ! nat (int (length s) + i))
      else Inl IndexError)"

definition py_clamp :: "int \<Rightarrow> int \<Rightarrow> nat" where
  "py_clamp n k = nat (if k < 0 then max 0 (n + k) else min n k)"

definition py_slice :: "string \<Rightarrow> int \<Rightarrow> int \<Rightarrow> string" where
  "py_slice s i j =
     (let n = int (length s); lo = py_clamp n i; hi = py_clamp n j
      in take (hi - lo) (drop lo s))"

definition py_slice_from :: "string \<Rightarrow> int \<Rightarrow> string" where
  "py_slice_from s i = drop (py_clamp (int (length s)) i) s"

definition py_slice_to :: "string \<Rightarrow> int \<Rightarrow> string" where
  "py_slice_to s j = take (py_clamp (int (length s)) j) s"

definition ascii_lowercase :: string where
  "ascii_lowercase = ''abcdefghijklmnopqrstuvwxyz''"

definition ascii_uppercase :: string where
  "ascii_uppercase = ''ABCDEFGHIJKLMNOPQRSTUVWXYZ''"

definition lower_char :: "char \<Rightarrow> char" where
  "lower_char c =
     (case map_of (zip ascii_uppercase ascii_lowercase) c of Some d \<Rightarrow> d | None \<Rightarrow> c)"

definition lower :: "string \<Rightarrow> string" where
  "lower s = map lower_char s"

fun py_in :: "string \<Rightarrow> string \<Rightarrow> bool" where
  "py_in sub [] = (sub = [])"
| "py_in sub (c # cs) = (prefix sub (c # cs) \<or> py_in sub cs)"

section \<open>Module constants\<close>

definition function_name_key_words :: "string list" where
  "function_name_key_words = [''bzero'', ''usrInit'', ''bfill'']"

definition need_create_function :: "int list" where
  "need_create_function = [0x04, 0x05]"

definition string_letters :: string where
  "string_letters = ascii_lowercase @ ascii_uppercase"

definition string_digits :: string where
  "string_digits = ''0123456789''"

definition function_name_chaset :: string where
  "function_name_chaset = string_letters @ string_digits @ ''_:.<>,*'' @ ''()~+-=/%''"

definition ghidra_builtin_types :: "string list" where
  "ghidra_builtin_types =
    [''bool'', ''byte'', ''complex16'', ''complex32'', ''complex8'', ''doublecomplex'',
     ''dwfenc'', ''dword'', ''filetime'', ''float10'', ''float16'', ''float2'', ''float4'',
     ''float8'', ''floatcomplex'', ''guid'', ''imagebaseoffset32'', ''imagebaseoffset64'',
     ''int16'', ''int3'', ''int5'', ''int6'', ''int7'', ''long'', ''longdouble'',
     ''longdoublecomplex'', ''longlong'', ''mactime'', ''prel31'', ''qword'', ''sbyte'',
     ''schar'', ''sdword'', ''segmentedcodeaddress'', ''shiftedaddress'', ''sqword'',
     ''sword'', ''uchar'', ''uint'', ''uint16'', ''uint3'', ''uint5'', ''uint6'', ''uint7'',
     ''ulong'', ''ulonglong'', ''undefined'', ''undefined1'', ''undefined2'', ''undefined3'',
     ''undefined4'', ''undefined5'', ''undefined6'', ''undefined7'', ''undefined8'',
     ''ushort'', ''wchar_t'', ''wchar16'', ''wchar32'', ''word'']"

section \<open>\<^verbatim>\<open>check_is_func_name\<close>\<close>

text \<open>The \<^verbatim>\<open>for c in function_name\<close> loop, returning at the first character that is
  not in the character set.\<close>

fun chars_in_chaset :: "string \<Rightarrow> bool" where
  "chars_in_chaset [] = True"
| "chars_in_chaset (c # cs) =
     (if c \<notin> set function_name_chaset then False else chars_in_chaset cs)"

definition check_is_func_name :: "string \<Rightarrow> bool" where
  "check_is_func_name function_name =
     (if length function_name > 512 then False
      else if \<not> chars_in_chaset function_name then False
      else if lower function_name \<in> set ghidra_builtin_types then False
      else True)"

section \<open>\<^verbatim>\<open>demangle_function\<close>\<close>

text \<open>The first loop (lines 132 to 142): scan backwards over the parameter list, counting
  parentheses; the result is the value of \<^verbatim>\<open>index\<close> when the loop is left.\<close>

function paren_scan :: "string \<Rightarrow> int \<Rightarrow> int \<Rightarrow> py_error + int" where
  "paren_scan s index parentheses_count =
     (if index \<ge> 0 then
        (case py_getitem s index of
           Inl e \<Rightarrow> Inl e
         | Inr c \<Rightarrow>
             (let count' = (if c = CHR '')'' then parentheses_count + 1
                            else if c = CHR ''('' then parentheses_count - 1
                            else parentheses_count);
                  index' = index - 1
              in if count' = 0 then Inr index' else paren_scan s index' count'))
      else Inr index)"
  by pat_completeness auto
termination
  by (relation "measure (\<lambda>(s, index, c). nat (index + 1))") auto

text \<open>The second loop (lines 147 to 172). The result is the triple
  \<^verbatim>\<open>(index, function_name_end, function_name)\<close> when the loop is left.\<close>

function name_scan :: "string \<Rightarrow> int \<Rightarrow> int \<Rightarrow> py_error + (int \<times> int \<times> string option)" where
  "name_scan s index function_name_end =
     (if index \<ge> 0 then
        (case py_getitem s index of
           Inl e \<Rightarrow> Inl e
         | Inr c \<Rightarrow>
             if c = CHR '' '' then
               (let temp_data = py_slice s (index + 1) (function_name_end + 1)
                in if temp_data = ''*'' then name_scan s (index - 1) index
                   else if check_is_func_name temp_data
                        then Inr (index, function_name_end, Some temp_data)
                   else name_scan s (index - 1) index)
             else if index = 0 then
               (case py_getitem s function_name_end of
                  Inl e \<Rightarrow> Inl e
                | Inr d \<Rightarrow>
                    (let temp_data = (if d = CHR '' '' then py_slice s index function_name_end
                                      else py_slice s index (function_name_end + 1))
                     in Inr (index, function_name_end,
                             if check_is_func_name temp_data then Some temp_data else None)))
             else name_scan s (index - 1) function_name_end)
      else Inr (index, function_name_end, None))"
  by pat_completeness auto
termination
  by (relation "measure (\<lambda>(s, index, e). nat (index + 1))") auto

definition demangle_function ::
  "string \<Rightarrow> py_error + (string option \<times> string option \<times> string)" where
  "demangle_function demangle_string =
     (let function_name_end = int (length demangle_string) - 1;
          index = int (length demangle_string) - 1
      in case py_getitem demangle_string (- 1) of
           Inl e \<Rightarrow> Inl e
         | Inr c \<Rightarrow>
            (case (if c = CHR '')'' then
                     (case paren_scan demangle_string index 0 of
                        Inl e \<Rightarrow> Inl e
                      | Inr i \<Rightarrow> Inr (i, i))
                   else Inr (index, function_name_end)) of
               Inl e \<Rightarrow> Inl e
             | Inr (index1, function_name_end1) \<Rightarrow>
                (case name_scan demangle_string index1 function_name_end1 of
                   Inl e \<Rightarrow> Inl e
                 | Inr (index2, function_name_end2, function_name) \<Rightarrow>
                    (let function_name_start = index2;
                         function_parameters = py_slice_from demangle_string (function_name_end2 + 1);
                         function_return = (if index2 \<noteq> 0
                                            then Some (py_slice_to demangle_string function_name_start)
                                            else None)
                     in Inr (function_return, function_name, function_parameters)))))"

section \<open>\<^verbatim>\<open>is_vx_symbol_file\<close>\<close>

text \<open>\<^verbatim>\<open>struct.unpack('>I', data)[0]\<close> and \<^verbatim>\<open>struct.unpack('<I', data)[0]\<close>: the
  argument must hold exactly four bytes, otherwise \<^verbatim>\<open>struct.error\<close> is raised.\<close>

definition unpack_I :: "bool \<Rightarrow> string \<Rightarrow> py_error + int" where
  "unpack_I big_endian bs =
     (case bs of
        [b0, b1, b2, b3] \<Rightarrow>
          Inr (if big_endian
               then of_char b0 * 2 ^ 24 + of_char b1 * 2 ^ 16 + of_char b2 * 2 ^ 8 + of_char b3
               else of_char b3 * 2 ^ 24 + of_char b2 * 2 ^ 16 + of_char b1 * 2 ^ 8 + of_char b0)
      | _ \<Rightarrow> Inl StructError)"

text \<open>The loop over \<^verbatim>\<open>function_name_key_words\<close> (lines 336 to 339); \<open>False\<close> stands
  for the early \<^verbatim>\<open>return False\<close>.\<close>

fun key_words_found :: "string list \<Rightarrow> string \<Rightarrow> bool" where
  "key_words_found [] file_data = True"
| "key_words_found (key_function # rest) file_data =
     (if \<not> py_in key_function file_data then False else key_words_found rest file_data)"

definition is_vx_symbol_file :: "string \<Rightarrow> bool \<Rightarrow> py_error + bool" where
  "is_vx_symbol_file file_data is_big_endian =
     (if \<not> key_words_found function_name_key_words file_data then Inr False
      else if is_big_endian then
        (case unpack_I True (take 4 file_data) of
           Inl e \<Rightarrow> Inl e
         | Inr v \<Rightarrow> Inr (v = int (length file_data)))
      else
        (case unpack_I False (take 4 file_data) of
           Inl e \<Rightarrow> Inl e
         | Inr v \<Rightarrow> Inr (v = int (length file_data))))"

section \<open>The host program database\<close>

text \<open>
  Ghidra's flat API, the demangler and the helpers of \<^verbatim>\<open>common\<close> and
  \<^verbatim>\<open>vx_structs\<close> are not part of this module. What they answer is a parameter of the
  model (the record \<open>host\<close>); what the module asks them to change is recorded, in
  order, as a list of events.

  An address is its offset. The Java exceptions are the three classes the handlers of
  the module name; \<open>JavaException\<close> is any other \<^verbatim>\<open>java.lang.Exception\<close>.
  Only \<^verbatim>\<open>createAsciiString(...).getValue()\<close> (a Java or a Python exception) and
  \<^verbatim>\<open>demangle\<close> (a Java exception) are taken to raise; a function or a
  typed data item that cannot be created is the answer \<open>False\<close> of
  \<^verbatim>\<open>createFunction\<close> (the \<^verbatim>\<open>None\<close> of line 264) and of \<^verbatim>\<open>createData\<close> (the
  exception caught in line 403).

  Each answer is a function of the question alone: the model does not follow how an
  earlier change alters a later answer. \<^verbatim>\<open>getDataAt\<close> and \<^verbatim>\<open>getFunctionAt\<close> answer
  with a printed form of the object found.
\<close>

datatype address = Address (getOffset: int)

definition add :: "address \<Rightarrow> int \<Rightarrow> address" where
  "add a n = Address (getOffset a + n)"

datatype java_exn = CodeUnitInsertionException | DemangledException | JavaException

text \<open>
  What a call can raise: a Java exception, or a Python exception (an instance of
  \<^verbatim>\<open>BaseException\<close>). Under Jython a Java exception is not an instance of
  \<^verbatim>\<open>BaseException\<close>; the module itself catches Java exceptions by their Java class
  (lines 195, 199, 207, 211 and 243).
\<close>

datatype raised = JavaThrowable java_exn | PythonException

datatype vx_struct =
    vx_5_cl_buff | vx_5_clPool | vx_5_pool_func_tbl | vx_5_net_pool | vx_5_pool_stat
  | vx_5_wind_tcb

datatype demangled_object = DemangledObject (getSignature: "string option")

datatype event =
    RemoveDataAt address
  | CreateAsciiString address string
  | RemoveInstructionAt address
  | Disassemble address
  | CreateFunction address string
  | SetName address string
  | CreateLabel address string bool
  | SetPlateComment address string
  | CreateData address vx_struct

record host =
  can_demangle :: bool
  demangle :: "string \<Rightarrow> bool \<Rightarrow> java_exn + demangled_object option"
  vx_toAddr :: "int \<Rightarrow> address"
  toAddr :: "int \<Rightarrow> address"
  getInt :: "address \<Rightarrow> int"
  is_address_in_current_program :: "address \<Rightarrow> bool"
  getDataAt :: "address \<Rightarrow> string option"
  getInstructionAt :: "address \<Rightarrow> bool"
  getFunctionAt :: "address \<Rightarrow> string option"
  createAsciiString :: "address \<Rightarrow> raised + string"
  createFunction :: "address \<Rightarrow> string \<Rightarrow> bool"
  createData :: "address \<Rightarrow> vx_struct \<Rightarrow> bool"
  getLength :: "vx_struct \<Rightarrow> nat"
  VX_5_CL_TBL_SIZE :: nat
  vx_5_pool_func_dict :: "string list"

text \<open>Python's truth value of an optional string: \<^verbatim>\<open>None\<close> and \<^verbatim>\<open>''\<close> are false.\<close>

definition truthy :: "string option \<Rightarrow> bool" where
  "truthy v = (case v of None \<Rightarrow> False | Some s \<Rightarrow> s \<noteq> [])"

section \<open>\<^verbatim>\<open>demangled_symbol\<close>\<close>

text \<open>
  The result is the list of calls made to \<^verbatim>\<open>demangler.demangle\<close>, in order, and
  the returned \<^verbatim>\<open>sym_demangled_name\<close>. The first \<^verbatim>\<open>try\<close> block (lines 188 to 200)
  holds both calls on the whole string; the second (lines 203 to 212) the call on
  \<^verbatim>\<open>symbol_string[1:]\<close>. Every handler only logs.
\<close>

definition first_pass ::
  "host \<Rightarrow> string \<Rightarrow> (string \<times> bool) list \<times> demangled_object option" where
  "first_pass h symbol_string =
     (case demangle h symbol_string True of
        Inl err \<Rightarrow> ([(symbol_string, True)], None)
      | Inr sym_demangled \<Rightarrow>
          if sym_demangled = None then
            (case demangle h symbol_string False of
               Inl err \<Rightarrow> ([(symbol_string, True), (symbol_string, False)], sym_demangled)
             | Inr sym_demangled' \<Rightarrow>
                 ([(symbol_string, True), (symbol_string, False)], sym_demangled'))
          else ([(symbol_string, True)], sym_demangled))"

definition second_pass ::
  "host \<Rightarrow> string \<Rightarrow> (string \<times> bool) list \<times> demangled_object option \<Rightarrow>
     (string \<times> bool) list \<times> demangled_object option" where
  "second_pass h symbol_string st =
     (case st of (calls, sym_demangled) \<Rightarrow>
        if sym_demangled = None then
          (case demangle h (py_slice_from symbol_string 1) False of
             Inl err \<Rightarrow> (calls @ [(py_slice_from symbol_string 1, False)], sym_demangled)
           | Inr sym_demangled' \<Rightarrow>
               (calls @ [(py_slice_from symbol_string 1, False)], sym_demangled'))
        else (calls, sym_demangled))"

definition demangled_symbol ::
  "host \<Rightarrow> string \<Rightarrow> (string \<times> bool) list \<times> string option" where
  "demangled_symbol h symbol_string =
     (if can_demangle h then
        (case second_pass h symbol_string (first_pass h symbol_string) of
           (calls, sym_demangled) \<Rightarrow>
             (calls, case sym_demangled of None \<Rightarrow> None | Some d \<Rightarrow> getSignature d))
      else ([], None))"

section \<open>\<^verbatim>\<open>add_symbol\<close>\<close>

text \<open>
  The part of \<^verbatim>\<open>add_symbol\<close> from line 250 on, once \<^verbatim>\<open>symbol_name_string\<close> is
  known. An exception raised inside the \<^verbatim>\<open>try\<close> of line 257 ends the processing of
  the symbol (line 301); the model has one such place, the call of
  \<^verbatim>\<open>demangle_function\<close>.
\<close>

definition add_symbol_at :: "host \<Rightarrow> address \<Rightarrow> string \<Rightarrow> int \<Rightarrow> event list" where
  "add_symbol_at h symbol_address symbol_name_string symbol_type =
     (if getInstructionAt h symbol_address then [RemoveInstructionAt symbol_address] else []) @
     (let sym_demangled_name = snd (demangled_symbol h symbol_name_string)
      in if symbol_name_string \<noteq> [] \<and> symbol_type \<in> set need_create_function then
           Disassemble symbol_address #
           (let function = createFunction h symbol_address symbol_name_string
            in (if function
                then [CreateFunction symbol_address symbol_name_string,
                      SetName symbol_address symbol_name_string]
                else [CreateLabel symbol_address symbol_name_string True]) @
               (if function \<and> truthy sym_demangled_name then
                  SetPlateComment symbol_address (the sym_demangled_name) #
                  (case demangle_function (the sym_demangled_name) of
                     Inl e \<Rightarrow> []
                   | Inr (function_return, function_name, function_parameters) \<Rightarrow>
                       (if truthy function_name
                        then [SetName symbol_address (the function_name)] else []) @
                       [CreateLabel symbol_address symbol_name_string True])
                else []))
         else
           CreateLabel symbol_address symbol_name_string True #
           (if truthy sym_demangled_name
            then [SetPlateComment symbol_address (the sym_demangled_name)] else []))"

text \<open>
  \<^verbatim>\<open>add_symbol\<close>. \<^verbatim>\<open>symbol_name_address\<close> is optional and tested for truth: \<^verbatim>\<open>None\<close>
  and \<open>0\<close> skip lines 230 to 247. The result is the list of events and the exception
  that leaves \<^verbatim>\<open>add_symbol\<close>, if any. Lines 240 to 247 are outside the \<^verbatim>\<open>try\<close> of
  line 257 and have two handlers: the one of line 243 (\<^verbatim>\<open>CodeUnitInsertionException\<close>)
  logs and goes on; the one of line 245 (\<^verbatim>\<open>BaseException\<close>, the Python exceptions)
  logs and returns. Any other Java exception is caught by neither and leaves
  \<^verbatim>\<open>add_symbol\<close>.
\<close>

definition add_symbol ::
  "host \<Rightarrow> string \<Rightarrow> int option \<Rightarrow> int \<Rightarrow> int \<Rightarrow> event list \<times> raised option" where
  "add_symbol h symbol_name symbol_name_address symbol_address symbol_type =
     (case symbol_name_address of
        None \<Rightarrow> (add_symbol_at h (vx_toAddr h symbol_address) symbol_name symbol_type, None)
      | Some n \<Rightarrow>
          if n = 0
          then (add_symbol_at h (vx_toAddr h symbol_address) symbol_name symbol_type, None)
          else
            (let name_address = vx_toAddr h n;
                 removed = (if getDataAt h name_address \<noteq> None
                            then [RemoveDataAt name_address] else [])
             in case createAsciiString h name_address of
                  Inr v \<Rightarrow>
                    (removed @ CreateAsciiString name_address v #
                       add_symbol_at h (vx_toAddr h symbol_address) v symbol_type,
                     None)
                | Inl (JavaThrowable CodeUnitInsertionException) \<Rightarrow>
                    (removed @
                       add_symbol_at h (vx_toAddr h symbol_address) symbol_name symbol_type,
                     None)
                | Inl PythonException \<Rightarrow> (removed, None)
                | Inl err \<Rightarrow> (removed, Some err)))"

section \<open>Kernel object walkers\<close>

definition create_struct :: "host \<Rightarrow> address \<Rightarrow> vx_struct \<Rightarrow> event list" where
  "create_struct h data_address data_struct =
     (if \<not> is_address_in_current_program h data_address then []
      else map (\<lambda>offset. RemoveDataAt (add data_address (int offset)))
             [0..<getLength h data_struct] @
           (if createData h data_address data_struct
            then [CreateData data_address data_struct] else []))"

text \<open>The \<^verbatim>\<open>while True\<close> loop of \<^verbatim>\<open>fix_cl_buff_chain\<close> (lines 414 to 422). It need not
  end: not returning is the value \<open>None\<close>.\<close>

partial_function (option) cl_buff_loop ::
  "host \<Rightarrow> address \<Rightarrow> address \<Rightarrow> event list \<Rightarrow> event list option" where
  "cl_buff_loop h cl_buff_addr next_cl_buff_addr evs =
     (if is_address_in_current_program h next_cl_buff_addr then
        (let evs' = evs @ create_struct h next_cl_buff_addr vx_5_cl_buff;
             next' = toAddr h (getInt h next_cl_buff_addr)
         in if next' = cl_buff_addr then Some evs'
            else cl_buff_loop h cl_buff_addr next' evs')
      else Some evs)"

text \<open>
  A walker's result, when it returns, is the pair of the Python return value
  (\<open>None\<close> for Python's \<^verbatim>\<open>None\<close>) and the events.
\<close>

definition fix_cl_buff_chain ::
  "host \<Rightarrow> address \<Rightarrow> int \<Rightarrow> (unit option \<times> event list) option" where
  "fix_cl_buff_chain h cl_buff_addr vx_version =
     (if vx_version = 5 then
        if getOffset cl_buff_addr = 0 then Some (None, [])
        else map_option (Pair None) (cl_buff_loop h cl_buff_addr cl_buff_addr [])
      else Some (None, []))"

record ClPoolInfo =
  cl_pool_addr :: int
  cl_pool_size :: "int option"
  cl_pool_num :: "int option"
  cl_pool_num_free :: "int option"
  cl_pool_usage :: "int option"
  cl_head_addr :: "int option"

definition fix_clpool ::
  "host \<Rightarrow> address \<Rightarrow> int \<Rightarrow> (ClPoolInfo option \<times> event list) option" where
  "fix_clpool h clpool_addr vx_version =
     (if vx_version = 5 then
        if getOffset clpool_addr = 0 then Some (None, [])
        else if is_address_in_current_program h clpool_addr then
          (let evs = create_struct h clpool_addr vx_5_clPool;
               cl_head = toAddr h (getInt h (add clpool_addr 0x14));
               info = \<lparr> cl_pool_addr = getOffset clpool_addr,
                        cl_pool_size = Some (getInt h (add clpool_addr 0x00)),
                        cl_pool_num = Some (getInt h (add clpool_addr 0x08)),
                        cl_pool_num_free = Some (getInt h (add clpool_addr 0x0c)),
                        cl_pool_usage = Some (getInt h (add clpool_addr 0x10)),
                        cl_head_addr = Some (getOffset cl_head) \<rparr>
           in case fix_cl_buff_chain h cl_head 5 of
                None \<Rightarrow> None
              | Some (r, evs') \<Rightarrow> Some (Some info, evs @ evs'))
        else Some (None, [])
      else Some (None, []))"

text \<open>The loop of \<^verbatim>\<open>fix_pool_func_tbl\<close> over the names of \<^verbatim>\<open>vx_5_pool_func_dict\<close>.\<close>

fun pool_func_loop :: "host \<Rightarrow> address \<Rightarrow> string list \<Rightarrow> int \<Rightarrow> event list" where
  "pool_func_loop h pool_func_addr [] func_offset = []"
| "pool_func_loop h pool_func_addr (func_name # rest) func_offset =
     (let func_addr = toAddr h (getInt h (add pool_func_addr func_offset))
      in (if is_address_in_current_program h func_addr then
            Disassemble func_addr #
            (if createFunction h func_addr func_name
             then [CreateFunction func_addr func_name, SetName func_addr func_name]
             else [CreateLabel func_addr func_name True])
          else []) @
         pool_func_loop h pool_func_addr rest (func_offset + 0x04))"

definition fix_pool_func_tbl :: "host \<Rightarrow> address \<Rightarrow> int \<Rightarrow> unit option \<times> event list" where
  "fix_pool_func_tbl h pool_func_addr vx_version =
     (if vx_version = 5 then
        if getOffset pool_func_addr = 0 then (None, [])
        else (None,
              (if is_address_in_current_program h pool_func_addr
               then create_struct h pool_func_addr vx_5_pool_func_tbl else []) @
              pool_func_loop h pool_func_addr (vx_5_pool_func_dict h) 0)
      else (None, []))"

record PoolInfo =
  pool_addr :: int
  pool_table_addr :: "int option"
  pool_status_addr :: "int option"
  pool_func_tbl_addr :: "int option"
  cl_pool_info :: "ClPoolInfo list"

text \<open>The loop of \<^verbatim>\<open>fix_netpool\<close> over \<^verbatim>\<open>range(VX_5_CL_TBL_SIZE)\<close> (lines 496 to 501),
  on the list of cluster pool records and the events so far.\<close>

fun cl_tbl_loop ::
  "host \<Rightarrow> address \<Rightarrow> int \<Rightarrow> nat list \<Rightarrow> ClPoolInfo list \<times> event list \<Rightarrow>
     (ClPoolInfo list \<times> event list) option" where
  "cl_tbl_loop h pool_table vx_version [] acc = Some acc"
| "cl_tbl_loop h pool_table vx_version (i # rest) (infos, evs) =
     (let offset = int i * 0x04;
          cl_pool_addr = toAddr h (getInt h (add pool_table offset))
      in case fix_clpool h cl_pool_addr vx_version of
           None \<Rightarrow> None
         | Some (r, evs') \<Rightarrow>
             cl_tbl_loop h pool_table vx_version rest
               (case r of None \<Rightarrow> infos | Some info \<Rightarrow> infos @ [info], evs @ evs'))"

definition fix_netpool ::
  "host \<Rightarrow> address \<Rightarrow> int \<Rightarrow> (PoolInfo option \<times> event list) option" where
  "fix_netpool h netpool_addr vx_version =
     (let net_pool_info = \<lparr> pool_addr = getOffset netpool_addr, pool_table_addr = None,
                             pool_status_addr = None, pool_func_tbl_addr = None,
                             cl_pool_info = [] \<rparr>
      in if vx_version = 5 then
           (let evs = create_struct h netpool_addr vx_5_net_pool;
                pool_table = add netpool_addr 0x24;
                info1 = net_pool_info\<lparr> pool_table_addr := Some (getOffset pool_table) \<rparr>;
                pool_status = toAddr h (getInt h (add netpool_addr 0x50));
                info2 = info1\<lparr> pool_status_addr := Some (getOffset pool_table) \<rparr>;
                pool_function_tbl = toAddr h (getInt h (add netpool_addr 0x54));
                info3 = info2\<lparr> pool_func_tbl_addr := Some (getOffset pool_function_tbl) \<rparr>
            in case cl_tbl_loop h pool_table vx_version [0..<VX_5_CL_TBL_SIZE h] ([], evs) of
                 None \<Rightarrow> None
               | Some (infos, evs') \<Rightarrow>
                   Some (Some (info3\<lparr> cl_pool_info := infos \<rparr>),
                         evs' @ create_struct h pool_status vx_5_pool_stat @
                         snd (fix_pool_func_tbl h pool_function_tbl vx_version)))
         else Some (Some net_pool_info, []))"

record TcbInfo =
  tcb_addr :: int
  task_name :: "string option"
  task_entry_addr :: "int option"
  task_entry_name :: "string option"
  task_stack_base :: "int option"
  task_stack_limit :: "int option"
  task_stack_limit_end :: "int option"

definition fix_tcb :: "host \<Rightarrow> address \<Rightarrow> int \<Rightarrow> TcbInfo option \<times> event list" where
  "fix_tcb h tcb_address vx_version =
     (if vx_version = 5 then
        (let evs = create_struct h tcb_address vx_5_wind_tcb;
             task_entry = toAddr h (getInt h (add tcb_address 0x74))
         in (Some \<lparr> tcb_addr = getOffset tcb_address,
                    task_name = getDataAt h (toAddr h (getInt h (add tcb_address 0x34))),
                    task_entry_addr = Some (getOffset task_entry),
                    task_entry_name = getFunctionAt h task_entry,
                    task_stack_base =
                      Some (getOffset (toAddr h (getInt h (add tcb_address 0x78)))),
                    task_stack_limit =
                      Some (getOffset (toAddr h (getInt h (add tcb_address 0x7c)))),
                    task_stack_limit_end =
                      Some (getOffset (toAddr h (getInt h (add tcb_address 0x80)))) \<rparr>,
             evs))
      else (None, []))"

section \<open>Chains of cluster buffers\<close>

text \<open>
  The first \<open>k\<close> addresses reached from \<open>a\<close> by following the forward link (the
  word at offset 0 of a buffer, read with \<^verbatim>\<open>toAddr(getInt(...))\<close> as in line 420), and
  the address reached after \<open>k\<close> links.
\<close>

fun chain :: "host \<Rightarrow> address \<Rightarrow> nat \<Rightarrow> address list" where
  "chain h a 0 = []"
| "chain h a (Suc k) = a # chain h (toAddr h (getInt h a)) k"

fun chain_end :: "host \<Rightarrow> address \<Rightarrow> nat \<Rightarrow> address" where
  "chain_end h a 0 = a"
| "chain_end h a (Suc k) = chain_end h (toAddr h (getInt h a)) k"

text \<open>The addresses at which a list of events creates typed data, in order.\<close>

fun typed_addresses :: "event list \<Rightarrow> address list" where
  "typed_addresses [] = []"
| "typed_addresses (CreateData a d # evs) = a # typed_addresses evs"
| "typed_addresses (e # evs) = typed_addresses evs"

section \<open>Example hosts\<close>

text \<open>
  A small program database for the examples: no demangler, every function and every
  typed data item can be created, nothing is defined yet, and the program occupies the
  offsets from \<open>0x1000\<close> up to \<open>0x7000\<close>. The memory holds a net pool descriptor at
  \<open>0x1000\<close> with one cluster pool at \<open>0x2000\<close>, whose only buffer at \<open>0x3000\<close>
  links to itself, and three buffers at \<open>0x4000\<close>, \<open>0x4100\<close> and \<open>0x4200\<close> in a
  cycle.
\<close>

definition example_memory :: "address \<Rightarrow> int" where
  "example_memory a =
     (if a = Address 0x1024 then 0x2000
      else if a = Address 0x1050 then 0x5000
      else if a = Address 0x1054 then 0x6000
      else if a = Address 0x2014 then 0x3000
      else if a = Address 0x3000 then 0x3000
      else if a = Address 0x4000 then 0x4100
      else if a = Address 0x4100 then 0x4200
      else if a = Address 0x4200 then 0x4000
      else 0)"

definition example_host :: host where
  "example_host =
     \<lparr> can_demangle = False,
       demangle = (\<lambda>s hint. Inr None),
       vx_toAddr = Address,
       toAddr = Address,
       getInt = example_memory,
       is_address_in_current_program = (\<lambda>a. 0x1000 \<le> getOffset a \<and> getOffset a < 0x7000),
       getDataAt = (\<lambda>a. None),
       getInstructionAt = (\<lambda>a. False),
       getFunctionAt = (\<lambda>a. None),
       createAsciiString = (\<lambda>a. Inr ''_Z7getDatav''),
       createFunction = (\<lambda>a n. True),
       createData = (\<lambda>a d. True),
       getLength = (\<lambda>d. 1),
       VX_5_CL_TBL_SIZE = 2,
       vx_5_pool_func_dict = [''poolInit''] \<rparr>"

text \<open>A demangler that fails on every call with the prefix hint, and knows
  \<^verbatim>\<open>_Z3foov\<close> without it.\<close>

definition hint_failing_host :: host where
  "hint_failing_host =
     example_host
       \<lparr> can_demangle := True,
         demangle := (\<lambda>s hint. if hint then Inl DemangledException
                                else if s = ''_Z3foov''
                                then Inr (Some (DemangledObject (Some ''foo()'')))
                                else Inr None) \<rparr>"

text \<open>A demangler that knows \<^verbatim>\<open>_Z7getDatav\<close>.\<close>

definition demangling_host :: host where
  "demangling_host =
     example_host
       \<lparr> can_demangle := True,
         demangle := (\<lambda>s hint. if s = ''_Z7getDatav''
                                then Inr (Some (DemangledObject (Some ''char* getData()'')))
                                else Inr None) \<rparr>"

text \<open>A host on which no ASCII string can be placed.\<close>

definition conflict_host :: host where
  "conflict_host =
     example_host \<lparr> createAsciiString := (\<lambda>a. Inl (JavaThrowable CodeUnitInsertionException)) \<rparr>"

text \<open>Hosts on which placing the string fails with a Python exception, and with another
  Java exception.\<close>

definition failing_host :: host where
  "failing_host = example_host \<lparr> createAsciiString := (\<lambda>a. Inl PythonException) \<rparr>"

definition java_failing_host :: host where
  "java_failing_host =
     example_host \<lparr> createAsciiString := (\<lambda>a. Inl (JavaThrowable JavaException)) \<rparr>"

text \<open>A memory whose only word that is not 0 is the status pointer of the descriptor at
  \<open>0x6000\<close>, which points at the descriptor's own cluster pool table.\<close>

definition coinciding_host :: host where
  "coinciding_host =
     example_host \<lparr> getInt := (\<lambda>a. if a = Address 0x6050 then 0x6024 else 0) \<rparr>"

section \<open>Properties of the string functions\<close>

lemma py_in_sublist: "py_in sub s \<longleftrightarrow> sublist sub s"
  by (induction s) (simp_all add: sublist_Cons_right)

lemma key_words_found_iff: "key_words_found ks fd \<longleftrightarrow> (\<forall>k\<in>set ks. sublist k fd)"
  by (induction ks) (simp_all add: py_in_sublist)

lemma unpack_I_take4: "4 \<le> length fd \<Longrightarrow> \<exists>v. unpack_I be (take 4 fd) = Inr v"
proof -
  assume "4 \<le> length fd"
  then obtain a b c d r where "fd = a # b # c # d # r"
    by (cases fd; simp; rename_tac x1 r1; case_tac r1; simp; rename_tac x2 r2; case_tac r2; simp;
        rename_tac x3 r3; case_tac r3; simp)
  then show ?thesis by (simp add: unpack_I_def)
qed

text \<open>
  C1. \<^verbatim>\<open>is_vx_symbol_file\<close> never raises, and it answers true exactly when each of
  \<^verbatim>\<open>bzero\<close>, \<^verbatim>\<open>usrInit\<close> and \<^verbatim>\<open>bfill\<close> is a contiguous part of the buffer and the
  first four bytes, read as an unsigned 32-bit integer in the given byte order, are the
  length of the buffer. A buffer that lacks a key word gives false whatever its first
  four bytes are, also when it is shorter than four bytes.
\<close>

theorem is_vx_symbol_file_iff:
  "is_vx_symbol_file file_data is_big_endian =
     Inr (sublist ''bzero'' file_data \<and> sublist ''usrInit'' file_data \<and>
          sublist ''bfill'' file_data \<and>
          unpack_I is_big_endian (take 4 file_data) = Inr (int (length file_data)))"
proof (cases "key_words_found function_name_key_words file_data")
  case False
  then show ?thesis
    by (auto simp: is_vx_symbol_file_def key_words_found_iff function_name_key_words_def)
next
  case True
  then have all: "sublist ''bzero'' file_data" "sublist ''usrInit'' file_data"
    "sublist ''bfill'' file_data"
    by (simp_all add: key_words_found_iff function_name_key_words_def)
  from all(1) have "length ''bzero'' \<le> length file_data"
    by (rule sublist_length_le)
  then have "4 \<le> length file_data" by simp
  then obtain v where v: "unpack_I is_big_endian (take 4 file_data) = Inr v"
    using unpack_I_take4 by blast
  with True all show ?thesis
    by (cases is_big_endian) (auto simp: is_vx_symbol_file_def)
qed

theorem is_vx_symbol_file_iff_witness:
  "is_vx_symbol_file
     ([CHR 0x00, CHR 0x00, CHR 0x00, CHR 0x15] @ ''bzero'' @ ''usrInit'' @ ''bfill'') True
   = Inr True \<and>
   is_vx_symbol_file
     ([CHR 0x00, CHR 0x00, CHR 0x00, CHR 0x15] @ ''bzero'' @ ''usrInit'' @ ''bfill'') False
   = Inr False"
  using is_vx_symbol_file_iff
          [of "[CHR 0x00, CHR 0x00, CHR 0x00, CHR 0x15] @ ''bzero'' @ ''usrInit'' @ ''bfill''" True]
        is_vx_symbol_file_iff
          [of "[CHR 0x00, CHR 0x00, CHR 0x00, CHR 0x15] @ ''bzero'' @ ''usrInit'' @ ''bfill''" False]
  by (simp add: unpack_I_def flip: py_in_sublist)

lemma chars_in_chaset_iff:
  "chars_in_chaset s \<longleftrightarrow> (\<forall>c\<in>set s. c \<in> set function_name_chaset)"
  by (induction s) simp_all

lemma set_function_name_chaset:
  "set function_name_chaset =
     set string_letters \<union> set string_digits \<union> set ''_:.<>,*()~+-=/%''"
  by (simp add: function_name_chaset_def Un_assoc)

text \<open>
  C6. \<^verbatim>\<open>check_is_func_name\<close> answers true exactly for the strings of at most 512
  characters, all of them letters, digits or one of \<^verbatim>\<open>_:.<>,*()~+-=/%\<close>, whose lower-case
  form is not one of the reserved type names.
\<close>

theorem check_is_func_name_iff:
  "check_is_func_name s \<longleftrightarrow>
     length s \<le> 512 \<and>
     (\<forall>c\<in>set s. c \<in> set string_letters \<union> set string_digits \<union> set ''_:.<>,*()~+-=/%'') \<and>
     lower s \<notin> set ghidra_builtin_types"
  unfolding check_is_func_name_def chars_in_chaset_iff set_function_name_chaset
  by auto

theorem check_is_func_name_iff_witness:
  "check_is_func_name ''Foo::Bar'' \<and> \<not> check_is_func_name ''DWord'' \<and>
   \<not> check_is_func_name ''get Data''"
  using check_is_func_name_iff [of "''Foo::Bar''"] check_is_func_name_iff [of "''DWord''"]
        check_is_func_name_iff [of "''get Data''"]
  by (simp add: string_letters_def string_digits_def ascii_lowercase_def ascii_uppercase_def
        lower_def lower_char_def ghidra_builtin_types_def)

lemma py_getitem_in_range:
  "0 \<le> i \<Longrightarrow> i < int (length s) \<Longrightarrow> py_getitem s i = Inr (s ! nat i)"
  by (simp add: py_getitem_def)

text \<open>The first loop of \<^verbatim>\<open>demangle_function\<close> reads only positions inside the string
  and stops at the latest when \<^verbatim>\<open>index\<close> is \<open>-1\<close>.\<close>

lemma paren_scan_returns:
  "index < int (length s) \<Longrightarrow> - 1 \<le> index \<Longrightarrow>
     \<exists>i. paren_scan s index c = Inr i \<and> - 1 \<le> i \<and> i \<le> index"
proof (induction s index c rule: paren_scan.induct)
  case (1 s index c)
  show ?case
  proof (cases "index \<ge> 0")
    case False
    with "1.prems" show ?thesis by simp
  next
    case True
    then have g: "py_getitem s index = Inr (s ! nat index)"
      using "1.prems" by (simp add: py_getitem_in_range)
    define c' where "c' = (if s ! nat index = CHR '')'' then c + 1
                            else if s ! nat index = CHR ''('' then c - 1 else c)"
    show ?thesis
    proof (cases "c' = 0")
      case True
      with \<open>index \<ge> 0\<close> g show ?thesis
        by (subst paren_scan.simps) (simp add: c'_def Let_def)
    next
      case False
      have "\<exists>i. paren_scan s (index - 1) c' = Inr i \<and> - 1 \<le> i \<and> i \<le> index - 1"
        using "1.IH"[OF True g c'_def refl False] "1.prems" True
        by simp
      then obtain i where "paren_scan s (index - 1) c' = Inr i" "- 1 \<le> i" "i \<le> index - 1"
        by blast
      with False \<open>index \<ge> 0\<close> g show ?thesis
        by (subst paren_scan.simps) (simp add: c'_def Let_def)
    qed
  qed
qed

text \<open>The second loop reads \<^verbatim>\<open>demangle_string[index]\<close> and
  \<^verbatim>\<open>demangle_string[function_name_end]\<close> only inside the string.\<close>

lemma name_scan_returns:
  "index < int (length s) \<Longrightarrow> index \<le> function_name_end \<Longrightarrow>
   function_name_end < int (length s) \<Longrightarrow>
     \<exists>r. name_scan s index function_name_end = Inr r"
proof (induction s index function_name_end rule: name_scan.induct)
  case (1 s index fne)
  show ?case
  proof (cases "index \<ge> 0")
    case False
    then show ?thesis by simp
  next
    case True
    then have g: "py_getitem s index = Inr (s ! nat index)"
      using "1.prems" by (simp add: py_getitem_in_range)
    have ge: "py_getitem s fne = Inr (s ! nat fne)"
      using "1.prems" True by (simp add: py_getitem_in_range)
    show ?thesis
    proof (cases "s ! nat index = CHR '' ''")
      case sp: True
      define temp_data where "temp_data = py_slice s (index + 1) (fne + 1)"
      show ?thesis
      proof (cases "temp_data = ''*''")
        case star: True
        have "\<exists>r. name_scan s (index - 1) index = Inr r"
          using "1.IH"(1)[OF True g sp temp_data_def star] "1.prems" by simp
        with True g sp star show ?thesis
          by (subst name_scan.simps) (simp add: temp_data_def Let_def)
      next
        case nostar: False
        show ?thesis
        proof (cases "check_is_func_name temp_data")
          case True
          with \<open>index \<ge> 0\<close> g sp nostar show ?thesis
            by (subst name_scan.simps) (simp add: temp_data_def Let_def)
        next
          case False
          have "\<exists>r. name_scan s (index - 1) index = Inr r"
            using "1.IH"(2)[OF True g sp temp_data_def nostar False] "1.prems" by simp
          with \<open>index \<ge> 0\<close> g sp nostar False show ?thesis
            by (subst name_scan.simps) (simp add: temp_data_def Let_def)
        qed
      qed
    next
      case nosp: False
      show ?thesis
      proof (cases "index = 0")
        case True
        with g ge nosp show ?thesis
          by (subst name_scan.simps) (simp add: Let_def)
      next
        case False
        have "\<exists>r. name_scan s (index - 1) fne = Inr r"
          using "1.IH"(3)[OF True g nosp False] "1.prems" by simp
        with True g nosp False show ?thesis
          by (subst name_scan.simps) simp
      qed
    qed
  qed
qed

text \<open>
  C5, as stated, fails on the empty string: line 129 reads \<^verbatim>\<open>demangle_string[-1]\<close>
  before any loop, which raises \<^verbatim>\<open>IndexError\<close>.
\<close>

theorem demangle_function_empty_raises: "demangle_function [] = Inl IndexError"
  by (simp add: demangle_function_def py_getitem_def)

text \<open>On a string that is not empty no read of \<^verbatim>\<open>demangle_function\<close> is out of
  range.\<close>

lemma demangle_function_nonempty:
  "s \<noteq> [] \<Longrightarrow> \<exists>ret name params. demangle_function s = Inr (ret, name, params)"
proof -
  assume ne: "s \<noteq> []"
  then have last: "py_getitem s (- 1) = Inr (s ! (length s - 1))"
    by (cases s) (simp_all add: py_getitem_def Let_def nat_diff_distrib' flip: of_nat_diff)
  let ?n = "int (length s)"
  have "\<exists>i e. (if s ! (length s - 1) = CHR '')'' then
                     (case paren_scan s (?n - 1) 0 of Inl e \<Rightarrow> Inl e | Inr i \<Rightarrow> Inr (i, i))
                   else Inr (?n - 1, ?n - 1)) = Inr (i, e) \<and> i < ?n \<and> i \<le> e \<and> e < ?n"
  proof (cases "s ! (length s - 1) = CHR '')''")
    case True
    obtain i where "paren_scan s (?n - 1) 0 = Inr i" "- 1 \<le> i" "i \<le> ?n - 1"
      using paren_scan_returns[of "?n - 1" s 0] by auto
    with True show ?thesis by simp
  next
    case False
    then show ?thesis by simp
  qed
  then obtain i e where ie:
    "(if s ! (length s - 1) = CHR '')'' then
        (case paren_scan s (?n - 1) 0 of Inl e \<Rightarrow> Inl e | Inr i \<Rightarrow> Inr (i, i))
      else Inr (?n - 1, ?n - 1)) = Inr (i, e)" "i < ?n" "i \<le> e" "e < ?n"
    by blast
  obtain r where r: "name_scan s i e = Inr r"
    using name_scan_returns[OF ie(2,3,4)] by blast
  obtain a b c where "r = (a, b, c)" by (cases r)
  with last ie(1) r show ?thesis
    by (simp add: demangle_function_def Let_def)
qed

text \<open>
  C5, amended. On every string that is not empty (whatever its parentheses)
  \<^verbatim>\<open>demangle_function\<close> returns a triple and raises no \<^verbatim>\<open>IndexError\<close>. The
  parameters are a string; the return type and the name are optional. The only caller
  (line 281) passes a string that is not empty (line 274).
\<close>

theorem demangle_function_returns:
  "s \<noteq> [] \<Longrightarrow> \<exists>ret name params. demangle_function s = Inr (ret, name, params)"
  by (rule demangle_function_nonempty)

theorem demangle_function_returns_witness:
  "''f((a)'' \<noteq> [] \<and> (\<exists>ret name params. demangle_function ''f((a)'' = Inr (ret, name, params))"
  using demangle_function_returns [of "''f((a)''"] by simp

text \<open>
  C7. On \<^verbatim>\<open>char* getData()\<close> the name is \<^verbatim>\<open>getData\<close>, the return type is \<^verbatim>\<open>char*\<close>
  and the parameters are \<^verbatim>\<open>()\<close>.
\<close>

theorem demangle_function_getData:
  "demangle_function ''char* getData()'' = Inr (Some ''char*'', Some ''getData'', ''()'')"
  by code_simp

section \<open>Properties of the name resolver and the symbol materializer\<close>

lemma py_slice_from_1: "py_slice_from s 1 = drop 1 s"
  by (cases s) (simp_all add: py_slice_from_def py_clamp_def)

text \<open>
  C4, amended. When demangling is available the first call is
  \<^verbatim>\<open>demangle(s, True)\<close>. If it returns nothing, \<^verbatim>\<open>demangle(s, False)\<close> follows; if
  it raises, that call is skipped (both calls stand in one \<^verbatim>\<open>try\<close> block). When no
  object has been obtained, \<^verbatim>\<open>demangle(s[1:], False)\<close> is the last call; an exception
  there counts as no result. No exception of the demangler leaves
  \<^verbatim>\<open>demangled_symbol\<close>. When \<^verbatim>\<open>can_demangle\<close> is false no call is made.
\<close>

theorem demangled_symbol_order:
  "demangled_symbol h s =
     (if \<not> can_demangle h then ([], None)
      else let stripped = (case demangle h (drop 1 s) False of
                             Inr (Some d) \<Rightarrow> getSignature d
                           | _ \<Rightarrow> None)
           in case demangle h s True of
                Inl e \<Rightarrow> ([(s, True), (drop 1 s, False)], stripped)
              | Inr (Some d) \<Rightarrow> ([(s, True)], getSignature d)
              | Inr None \<Rightarrow>
                  (case demangle h s False of
                     Inr (Some d) \<Rightarrow> ([(s, True), (s, False)], getSignature d)
                   | _ \<Rightarrow> ([(s, True), (s, False), (drop 1 s, False)], stripped)))"
  by (simp add: demangled_symbol_def first_pass_def second_pass_def py_slice_from_1 Let_def
           split: sum.splits option.splits)

text \<open>
  C4, as stated, fails: the call with the hint raises, the call without the hint would
  find the symbol, and it is never made.
\<close>

theorem demangled_symbol_skips_unhinted:
  "demangle hint_failing_host ''_Z3foov'' True = Inl DemangledException \<and>
   demangle hint_failing_host ''_Z3foov'' False = Inr (Some (DemangledObject (Some ''foo()''))) \<and>
   demangled_symbol hint_failing_host ''_Z3foov'' = ([(''_Z3foov'', True), (''Z3foov'', False)], None)"
  by (simp add: demangled_symbol_def first_pass_def second_pass_def py_slice_from_1
        hint_failing_host_def example_host_def)

theorem demangled_symbol_order_witness:
  "demangled_symbol demangling_host ''_Z7getDatav'' = ([(''_Z7getDatav'', True)], Some ''char* getData()'') \<and>
   demangled_symbol demangling_host ''main'' = ([(''main'', True), (''main'', False), (''ain'', False)], None) \<and>
   demangled_symbol hint_failing_host ''_Z3foov'' = ([(''_Z3foov'', True), (''Z3foov'', False)], None)"
  using demangled_symbol_order [of demangling_host "''_Z7getDatav''"]
        demangled_symbol_order [of demangling_host "''main''"]
        demangled_symbol_order [of hint_failing_host "''_Z3foov''"]
  by (simp add: demangling_host_def hint_failing_host_def example_host_def)


text \<open>Whatever the type tag, the rest of \<^verbatim>\<open>add_symbol\<close> creates a label or a function
  with the name it was given.\<close>

lemma add_symbol_at_creates:
  "CreateLabel sa name True \<in> set (add_symbol_at h sa name t) \<or>
   CreateFunction sa name \<in> set (add_symbol_at h sa name t)"
  by (auto simp: add_symbol_at_def Let_def)





text \<open>
  C3, amended. Let \<^verbatim>\<open>createAsciiString(...).getValue()\<close> raise. If the exception is
  \<^verbatim>\<open>CodeUnitInsertionException\<close>, it is logged, nothing is raised and the symbol is
  processed under the name the caller gave: a label or a function with that name is
  created at the destination. Otherwise nothing is created but the possible removal of
  the data at the name address; a Python exception (what \<^verbatim>\<open>except BaseException\<close>
  catches) ends the call without raising, and any other Java exception, caught by
  neither handler, leaves \<^verbatim>\<open>add_symbol\<close>.
\<close>

theorem add_symbol_ascii_failure:
  assumes "n \<noteq> 0" and "createAsciiString h (vx_toAddr h n) = Inl e"
  shows "(e = JavaThrowable CodeUnitInsertionException \<longrightarrow>
            add_symbol h symbol_name (Some n) symbol_address symbol_type =
              ((if getDataAt h (vx_toAddr h n) \<noteq> None then [RemoveDataAt (vx_toAddr h n)] else []) @
                 add_symbol_at h (vx_toAddr h symbol_address) symbol_name symbol_type,
               None) \<and>
            (CreateLabel (vx_toAddr h symbol_address) symbol_name True
               \<in> set (fst (add_symbol h symbol_name (Some n) symbol_address symbol_type)) \<or>
             CreateFunction (vx_toAddr h symbol_address) symbol_name
               \<in> set (fst (add_symbol h symbol_name (Some n) symbol_address symbol_type)))) \<and>
         (e \<noteq> JavaThrowable CodeUnitInsertionException \<longrightarrow>
            set (fst (add_symbol h symbol_name (Some n) symbol_address symbol_type))
              \<subseteq> {RemoveDataAt (vx_toAddr h n)} \<and>
            snd (add_symbol h symbol_name (Some n) symbol_address symbol_type) =
              (if e = PythonException then None else Some e))"
proof (cases "e = JavaThrowable CodeUnitInsertionException")
  case True
  with assms have eq: "add_symbol h symbol_name (Some n) symbol_address symbol_type =
              ((if getDataAt h (vx_toAddr h n) \<noteq> None then [RemoveDataAt (vx_toAddr h n)] else []) @
                 add_symbol_at h (vx_toAddr h symbol_address) symbol_name symbol_type,
               None)"
    by (simp add: add_symbol_def Let_def)
  from add_symbol_at_creates[of "vx_toAddr h symbol_address" symbol_name h symbol_type]
  show ?thesis
    unfolding eq using True by auto
next
  case False
  show ?thesis
  proof (cases e)
    case (JavaThrowable j)
    with False assms show ?thesis
      by (cases j) (auto simp: add_symbol_def Let_def)
  next
    case PythonException
    with assms show ?thesis
      by (auto simp: add_symbol_def Let_def)
  qed
qed

theorem add_symbol_ascii_failure_witness:
  "set (fst (add_symbol failing_host ''0x00001000'' (Some 0x2000) 0x1000 0x04))
     \<subseteq> {RemoveDataAt (Address 0x2000)} \<and>
   snd (add_symbol failing_host ''0x00001000'' (Some 0x2000) 0x1000 0x04) = None \<and>
   set (fst (add_symbol java_failing_host ''0x00001000'' (Some 0x2000) 0x1000 0x04))
     \<subseteq> {RemoveDataAt (Address 0x2000)} \<and>
   snd (add_symbol java_failing_host ''0x00001000'' (Some 0x2000) 0x1000 0x04) =
     Some (JavaThrowable JavaException) \<and>
   fst (add_symbol conflict_host ''0x00001000'' (Some 0x2000) 0x1000 0x04) =
     add_symbol_at conflict_host (Address 0x1000) ''0x00001000'' 0x04"
proof -
  have n: "(0x2000 :: int) \<noteq> 0" by simp
  have c1: "createAsciiString failing_host (vx_toAddr failing_host 0x2000) = Inl PythonException"
    by (simp add: failing_host_def example_host_def)
  have c2: "createAsciiString java_failing_host (vx_toAddr java_failing_host 0x2000) =
              Inl (JavaThrowable JavaException)"
    by (simp add: java_failing_host_def example_host_def)
  have c3: "createAsciiString conflict_host (vx_toAddr conflict_host 0x2000) =
              Inl (JavaThrowable CodeUnitInsertionException)"
    by (simp add: conflict_host_def example_host_def)
  have g: "getDataAt failing_host (vx_toAddr failing_host 0x2000) = None"
    "getDataAt java_failing_host (vx_toAddr java_failing_host 0x2000) = None"
    "getDataAt conflict_host (vx_toAddr conflict_host 0x2000) = None"
    "vx_toAddr conflict_host 0x1000 = Address 0x1000"
    "vx_toAddr failing_host 0x2000 = Address 0x2000"
    "vx_toAddr java_failing_host 0x2000 = Address 0x2000"
    by (simp_all add: failing_host_def java_failing_host_def conflict_host_def example_host_def)
  from add_symbol_ascii_failure [OF n c1, of "''0x00001000''" "0x1000" "0x04"]
       add_symbol_ascii_failure [OF n c2, of "''0x00001000''" "0x1000" "0x04"]
       add_symbol_ascii_failure [OF n c3, of "''0x00001000''" "0x1000" "0x04"]
  show ?thesis
    by (simp add: g prod_eq_iff)
qed

text \<open>
  C3, as stated, fails twice: when \<^verbatim>\<open>createAsciiString\<close> raises
  \<^verbatim>\<open>CodeUnitInsertionException\<close> a label is still created at the destination, and
  another Java exception leaves \<^verbatim>\<open>add_symbol\<close>.
\<close>

theorem add_symbol_conflict_goes_on:
  "createAsciiString conflict_host (vx_toAddr conflict_host 0x2000) =
     Inl (JavaThrowable CodeUnitInsertionException) \<and>
   add_symbol conflict_host ''0x00001000'' (Some 0x2000) 0x1000 0x00 =
     ([CreateLabel (Address 0x1000) ''0x00001000'' True], None) \<and>
   createAsciiString java_failing_host (vx_toAddr java_failing_host 0x2000) =
     Inl (JavaThrowable JavaException) \<and>
   add_symbol java_failing_host ''0x00001000'' (Some 0x2000) 0x1000 0x00 =
     ([], Some (JavaThrowable JavaException))"
  by (simp add: add_symbol_def add_symbol_at_def conflict_host_def java_failing_host_def
        example_host_def demangled_symbol_def need_create_function_def truthy_def)

section \<open>Properties of the kernel object walkers\<close>

lemma typed_addresses_append:
  "typed_addresses (xs @ ys) = typed_addresses xs @ typed_addresses ys"
  by (induction xs rule: typed_addresses.induct) simp_all

lemma typed_addresses_RemoveDataAt:
  "typed_addresses (map (\<lambda>offset. RemoveDataAt (f offset)) ns) = []"
  by (induction ns) simp_all

lemma typed_addresses_create_struct:
  "typed_addresses (create_struct h x d) =
     (if is_address_in_current_program h x \<and> createData h x d then [x] else [])"
  by (simp add: create_struct_def typed_addresses_append typed_addresses_RemoveDataAt)

lemma typed_addresses_chain:
  "typed_addresses (concat (map (\<lambda>x. create_struct h x d) xs)) =
     filter (\<lambda>x. is_address_in_current_program h x \<and> createData h x d) xs"
  by (induction xs) (simp_all add: typed_addresses_append typed_addresses_create_struct)

text \<open>
  The loop returns when the chain from the current buffer stays inside the program for
  \<open>k\<close> buffers, does not come back to the start before its end, and then either
  comes back to the start or leaves the program. It types the \<open>k\<close> buffers in
  order.
\<close>

lemma cl_buff_loop_chain:
  assumes "\<forall>x\<in>set (chain h cur k). is_address_in_current_program h x"
      and "start \<notin> set (tl (chain h cur k))"
      and "(0 < k \<and> chain_end h cur k = start) \<or>
           \<not> is_address_in_current_program h (chain_end h cur k)"
  shows "cl_buff_loop h start cur evs =
           Some (evs @ concat (map (\<lambda>x. create_struct h x vx_5_cl_buff) (chain h cur k)))"
  using assms
proof (induction k arbitrary: cur evs)
  case 0
  then show ?case
    by (subst cl_buff_loop.simps) simp
next
  case (Suc k)
  let ?next = "toAddr h (getInt h cur)"
  let ?evs' = "evs @ create_struct h cur vx_5_cl_buff"
  from Suc.prems(1) have inp: "is_address_in_current_program h cur" by simp
  show ?case
  proof (cases "?next = start")
    case True
    have "k = 0"
    proof (rule ccontr)
      assume "k \<noteq> 0"
      then obtain j where "k = Suc j" by (cases k) auto
      with Suc.prems(2) True show False by simp
    qed
    with inp True show ?thesis
      by (subst cl_buff_loop.simps) (simp add: Let_def)
  next
    case False
    have "cl_buff_loop h start ?next ?evs' =
            Some (?evs' @ concat (map (\<lambda>x. create_struct h x vx_5_cl_buff) (chain h ?next k)))"
    proof (rule Suc.IH)
      show "\<forall>x\<in>set (chain h ?next k). is_address_in_current_program h x"
        using Suc.prems(1) by simp
      show "start \<notin> set (tl (chain h ?next k))"
        using Suc.prems(2) by (cases k) auto
      show "(0 < k \<and> chain_end h ?next k = start) \<or>
            \<not> is_address_in_current_program h (chain_end h ?next k)"
        using Suc.prems(3) False by (cases k) auto
    qed
    with inp False show ?thesis
      by (subst cl_buff_loop.simps) (simp add: Let_def)
  qed
qed

text \<open>
  C8. Let the first \<open>k\<close> buffers of the chain from \<open>a\<close> be distinct and inside the
  program, and let the link of the last one lead back to \<open>a\<close> (a simple cycle; a
  single buffer linked to itself when \<open>k = 1\<close>) or out of the program (\<open>k = 0\<close>
  when \<open>a\<close> itself is outside). Then \<^verbatim>\<open>fix_cl_buff_chain\<close> returns. It calls
  \<^verbatim>\<open>create_struct\<close> once for each of these buffers, in order, and for nothing else
  (for none at all when the offset of \<open>a\<close> is 0), so no address is typed twice.
\<close>

theorem fix_cl_buff_chain_terminates:
  assumes "\<forall>x\<in>set (chain h a k). is_address_in_current_program h x"
      and "distinct (chain h a k)"
      and "(0 < k \<and> chain_end h a k = a) \<or>
           \<not> is_address_in_current_program h (chain_end h a k)"
  shows "\<exists>evs. fix_cl_buff_chain h a 5 = Some (None, evs) \<and>
           evs = (if getOffset a = 0 then []
                  else concat (map (\<lambda>x. create_struct h x vx_5_cl_buff) (chain h a k))) \<and>
           distinct (typed_addresses evs) \<and> set (typed_addresses evs) \<subseteq> set (chain h a k)"
proof -
  have "a \<notin> set (tl (chain h a k))"
    using assms(2) by (cases k) auto
  from cl_buff_loop_chain[OF assms(1) this assms(3), of "[]"]
  have "cl_buff_loop h a a [] =
          Some (concat (map (\<lambda>x. create_struct h x vx_5_cl_buff) (chain h a k)))"
    by simp
  then show ?thesis
    using assms(2) by (auto simp: fix_cl_buff_chain_def typed_addresses_chain)
qed

lemma example_chain:
  "chain example_host (Address 0x4000) (Suc (Suc (Suc 0))) = [Address 0x4000, Address 0x4100, Address 0x4200]"
  "chain_end example_host (Address 0x4000) (Suc (Suc (Suc 0))) = Address 0x4000"
  by (simp_all add: example_host_def example_memory_def)

theorem fix_cl_buff_chain_terminates_witness:
  "fix_cl_buff_chain example_host (Address 0x4000) 5 =
     Some (None, [RemoveDataAt (Address 0x4000), CreateData (Address 0x4000) vx_5_cl_buff,
                  RemoveDataAt (Address 0x4100), CreateData (Address 0x4100) vx_5_cl_buff,
                  RemoveDataAt (Address 0x4200), CreateData (Address 0x4200) vx_5_cl_buff]) \<and>
   fix_cl_buff_chain example_host (Address 0x3000) 5 =
     Some (None, [RemoveDataAt (Address 0x3000), CreateData (Address 0x3000) vx_5_cl_buff]) \<and>
   fix_cl_buff_chain example_host (Address 0x5000) 5 =
     Some (None, [RemoveDataAt (Address 0x5000), CreateData (Address 0x5000) vx_5_cl_buff])"
proof -
  have c: "fix_cl_buff_chain example_host (Address 0x4000) 5 =
     Some (None, [RemoveDataAt (Address 0x4000), CreateData (Address 0x4000) vx_5_cl_buff,
                  RemoveDataAt (Address 0x4100), CreateData (Address 0x4100) vx_5_cl_buff,
                  RemoveDataAt (Address 0x4200), CreateData (Address 0x4200) vx_5_cl_buff])"
    using fix_cl_buff_chain_terminates [of example_host "Address 0x4000" "Suc (Suc (Suc 0))"]
    by (simp add: example_host_def example_memory_def create_struct_def add_def)
  have s: "fix_cl_buff_chain example_host (Address 0x3000) 5 =
     Some (None, [RemoveDataAt (Address 0x3000), CreateData (Address 0x3000) vx_5_cl_buff])"
    using fix_cl_buff_chain_terminates [of example_host "Address 0x3000" "Suc 0"]
    by (simp add: example_host_def example_memory_def create_struct_def add_def)
  have l: "fix_cl_buff_chain example_host (Address 0x5000) 5 =
     Some (None, [RemoveDataAt (Address 0x5000), CreateData (Address 0x5000) vx_5_cl_buff])"
    using fix_cl_buff_chain_terminates [of example_host "Address 0x5000" "Suc 0"]
    by (simp add: example_host_def example_memory_def create_struct_def add_def)
  from c s l show ?thesis by simp
qed

text \<open>
  C9, amended. For the versions 6 and 7 no walker types or annotates anything. The
  buffer chain walker, the cluster pool walker and the task control block walker return
  \<^verbatim>\<open>None\<close>; the net pool walker returns its record with only \<^verbatim>\<open>pool_addr\<close> set
  (line 506 is outside the \<^verbatim>\<open>if\<close> of line 484).
\<close>

theorem walkers_v6_v7:
  "v = 6 \<or> v = 7 \<Longrightarrow>
     fix_cl_buff_chain h a v = Some (None, []) \<and>
     fix_clpool h a v = Some (None, []) \<and>
     fix_tcb h a v = (None, []) \<and>
     fix_netpool h a v =
       Some (Some \<lparr> pool_addr = getOffset a, pool_table_addr = None, pool_status_addr = None,
                     pool_func_tbl_addr = None, cl_pool_info = [] \<rparr>, [])"
  by (auto simp: fix_cl_buff_chain_def fix_clpool_def fix_tcb_def fix_netpool_def)

theorem walkers_v6_v7_witness:
  "fix_cl_buff_chain example_host (Address 0x4000) 6 = Some (None, []) \<and>
   fix_clpool example_host (Address 0x2000) 6 = Some (None, []) \<and>
   fix_tcb example_host (Address 0x6000) 6 = (None, []) \<and>
   fix_netpool example_host (Address 0x1000) 7 =
     Some (Some \<lparr> pool_addr = 0x1000, pool_table_addr = None, pool_status_addr = None,
                   pool_func_tbl_addr = None, cl_pool_info = [] \<rparr>, [])"
  using walkers_v6_v7 [of 6 example_host "Address 0x4000"]
        walkers_v6_v7 [of 6 example_host "Address 0x2000"]
        walkers_v6_v7 [of 6 example_host "Address 0x6000"]
        walkers_v6_v7 [of 7 example_host "Address 0x1000"]
  by simp

text \<open>
  C9, as stated, fails for the net pool walker: for version 6 its result is a record,
  not \<^verbatim>\<open>None\<close>.
\<close>

theorem fix_netpool_v6_returns_record:
  "fix_netpool example_host (Address 0x1000) 6 =
     Some (Some \<lparr> pool_addr = 0x1000, pool_table_addr = None, pool_status_addr = None,
                   pool_func_tbl_addr = None, cl_pool_info = [] \<rparr>, []) \<and>
   fst (the (fix_netpool example_host (Address 0x1000) 6)) \<noteq> None"
  by (simp add: fix_netpool_def)

text \<open>
  Which typed data the walkers create: the chain walker only cluster buffers, the
  cluster pool walker only cluster pools and cluster buffers, the function table walker
  only the function table.
\<close>

lemma create_struct_CreateData:
  "CreateData x d \<in> set (create_struct h y d') \<longleftrightarrow>
     x = y \<and> d = d' \<and> is_address_in_current_program h y \<and> createData h y d'"
  by (auto simp: create_struct_def)

lemma cl_buff_loop_CreateData:
  assumes "cl_buff_loop h start cur evs = Some evs'"
  shows "CreateData x d \<in> set evs' \<longrightarrow> d \<noteq> vx_5_cl_buff \<longrightarrow> CreateData x d \<in> set evs"
proof (rule cl_buff_loop.raw_induct
         [where P = "\<lambda>h start cur evs evs'.
                       CreateData x d \<in> set evs' \<longrightarrow> d \<noteq> vx_5_cl_buff \<longrightarrow> CreateData x d \<in> set evs",
          OF _ assms])
  fix f :: "host \<Rightarrow> address \<Rightarrow> address \<Rightarrow> event list \<Rightarrow> event list option"
  fix h start cur evs r
  assume IH: "\<And>h start cur evs r. f h start cur evs = Some r \<Longrightarrow>
                CreateData x d \<in> set r \<longrightarrow> d \<noteq> vx_5_cl_buff \<longrightarrow> CreateData x d \<in> set evs"
  assume body: "(if is_address_in_current_program h cur
      then let evs' = evs @ create_struct h cur vx_5_cl_buff;
               next' = toAddr h (getInt h cur)
           in if next' = start then Some evs'
              else f h start next' evs'
      else Some evs) = Some r"
  show "CreateData x d \<in> set r \<longrightarrow> d \<noteq> vx_5_cl_buff \<longrightarrow> CreateData x d \<in> set evs"
  proof (intro impI)
    assume r: "CreateData x d \<in> set r" and d: "d \<noteq> vx_5_cl_buff"
    show "CreateData x d \<in> set evs"
    proof (cases "is_address_in_current_program h cur")
      case False
      with body r show ?thesis by simp
    next
      case True
      have "CreateData x d \<in> set (evs @ create_struct h cur vx_5_cl_buff)"
      proof (cases "toAddr h (getInt h cur) = start")
        case True
        with body \<open>is_address_in_current_program h cur\<close> r show ?thesis
          by (simp add: Let_def)
      next
        case False
        with body True have "f h start (toAddr h (getInt h cur))
                               (evs @ create_struct h cur vx_5_cl_buff) = Some r"
          by (simp add: Let_def)
        from IH[OF this] r d show ?thesis by blast
      qed
      with d show ?thesis
        by (auto simp: create_struct_CreateData)
    qed
  qed
qed

lemma fix_cl_buff_chain_CreateData:
  "fix_cl_buff_chain h a v = Some (r, evs) \<Longrightarrow> CreateData x d \<in> set evs \<Longrightarrow> d = vx_5_cl_buff"
  using cl_buff_loop_CreateData[of h a a "[]" _ x d]
  by (auto simp: fix_cl_buff_chain_def split: if_splits)

lemma fix_clpool_CreateData:
  assumes "fix_clpool h a v = Some (r, evs)" and "CreateData x d \<in> set evs"
  shows "d = vx_5_clPool \<or> d = vx_5_cl_buff"
  using assms fix_cl_buff_chain_CreateData
  by (fastforce simp: fix_clpool_def Let_def create_struct_CreateData
        split: if_splits option.splits)

lemma cl_tbl_loop_CreateData:
  "cl_tbl_loop h pt v ns (infos, evs) = Some (infos', evs') \<Longrightarrow> CreateData x d \<in> set evs' \<Longrightarrow>
     CreateData x d \<in> set evs \<or> d = vx_5_clPool \<or> d = vx_5_cl_buff"
proof (induction ns arbitrary: infos evs)
  case Nil
  then show ?case by simp
next
  case (Cons i ns)
  from Cons.prems(1) obtain r e where
    f: "fix_clpool h (toAddr h (getInt h (add pt (int i * 0x04)))) v = Some (r, e)"
    and l: "cl_tbl_loop h pt v ns (case r of None \<Rightarrow> infos | Some info \<Rightarrow> infos @ [info], evs @ e)
              = Some (infos', evs')"
    by (auto simp: Let_def split: option.splits)
  from Cons.IH[OF l Cons.prems(2)] fix_clpool_CreateData[OF f, of x d]
  show ?case by auto
qed

lemma pool_func_loop_CreateData:
  "CreateData x d \<notin> set (pool_func_loop h a names off)"
  by (induction names arbitrary: off) (auto simp: Let_def)

lemma fix_pool_func_tbl_CreateData:
  "CreateData x d \<in> set (snd (fix_pool_func_tbl h a v)) \<Longrightarrow> d = vx_5_pool_func_tbl"
  by (auto simp: fix_pool_func_tbl_def create_struct_CreateData pool_func_loop_CreateData
        split: if_splits)

text \<open>
  C10, amended. Whenever \<^verbatim>\<open>fix_netpool\<close> returns for version 5, the
  \<^verbatim>\<open>pool_status_addr\<close> of its record is the offset of the descriptor plus \<open>0x24\<close>,
  the same value as \<^verbatim>\<open>pool_table_addr\<close> (line 491 stores \<^verbatim>\<open>pool_table_addr\<close>),
  whatever the word at offset \<open>0x50\<close> is. It equals the address read from offset
  \<open>0x50\<close> only when that address is itself the descriptor's offset plus \<open>0x24\<close>.
  The address read from offset \<open>0x50\<close> is typed as a pool status record exactly when
  it lies in the program and the data can be created there, and nothing else is typed
  as one. The other address fields are the descriptor's offset and the address read
  from offset \<open>0x54\<close>.
\<close>

theorem fix_netpool_status_addr:
  assumes "fix_netpool h netpool_addr 5 = Some (r, evs)"
  shows "\<exists>info. r = Some info \<and>
           pool_status_addr info = Some (getOffset netpool_addr + 0x24) \<and>
           pool_table_addr info = Some (getOffset netpool_addr + 0x24) \<and>
           pool_addr info = getOffset netpool_addr \<and>
           pool_func_tbl_addr info =
             Some (getOffset (toAddr h (getInt h (add netpool_addr 0x54)))) \<and>
           (pool_status_addr info = Some (getOffset (toAddr h (getInt h (add netpool_addr 0x50))))
              \<longleftrightarrow> getOffset (toAddr h (getInt h (add netpool_addr 0x50)))
                     = getOffset netpool_addr + 0x24) \<and>
           (\<forall>x. CreateData x vx_5_pool_stat \<in> set evs \<longleftrightarrow>
                  x = toAddr h (getInt h (add netpool_addr 0x50)) \<and>
                  is_address_in_current_program h x \<and> createData h x vx_5_pool_stat)"
proof -
  let ?status = "toAddr h (getInt h (add netpool_addr 0x50))"
  from assms obtain infos evs' where
    loop: "cl_tbl_loop h (add netpool_addr 0x24) 5 [0..<VX_5_CL_TBL_SIZE h]
             ([], create_struct h netpool_addr vx_5_net_pool) = Some (infos, evs')"
    and evs: "evs = evs' @ create_struct h ?status vx_5_pool_stat @
                    snd (fix_pool_func_tbl h (toAddr h (getInt h (add netpool_addr 0x54))) 5)"
    and r: "r = Some \<lparr> pool_addr = getOffset netpool_addr,
                       pool_table_addr = Some (getOffset netpool_addr + 0x24),
                       pool_status_addr = Some (getOffset netpool_addr + 0x24),
                       pool_func_tbl_addr =
                         Some (getOffset (toAddr h (getInt h (add netpool_addr 0x54)))),
                       cl_pool_info = infos \<rparr>"
    by (auto simp: fix_netpool_def Let_def add_def split: option.splits)
  have no1: "\<And>x. CreateData x vx_5_pool_stat \<notin> set evs'"
    using cl_tbl_loop_CreateData[OF loop] by (auto simp: create_struct_CreateData)
  have no2: "\<And>x. CreateData x vx_5_pool_stat
               \<notin> set (snd (fix_pool_func_tbl h (toAddr h (getInt h (add netpool_addr 0x54))) 5))"
    using fix_pool_func_tbl_CreateData by blast
  have typed: "\<forall>x. CreateData x vx_5_pool_stat \<in> set evs \<longleftrightarrow>
                  x = ?status \<and> is_address_in_current_program h x \<and> createData h x vx_5_pool_stat"
    unfolding evs using no1 no2 by (auto simp: create_struct_CreateData)
  from r typed show ?thesis by auto
qed

text \<open>The net pool of the example host, walked for version 5.\<close>

lemma example_self_loop:
  "cl_buff_loop example_host (Address 0x3000) (Address 0x3000) [] =
     Some [RemoveDataAt (Address 0x3000), CreateData (Address 0x3000) vx_5_cl_buff]"
  by (subst cl_buff_loop.simps)
     (simp add: example_host_def example_memory_def create_struct_def add_def)

lemma example_fix_clpool:
  "fix_clpool example_host (Address 0x2000) 5 =
     Some (Some \<lparr> cl_pool_addr = 0x2000, cl_pool_size = Some 0, cl_pool_num = Some 0,
                   cl_pool_num_free = Some 0, cl_pool_usage = Some 0,
                   cl_head_addr = Some 0x3000 \<rparr>,
           [RemoveDataAt (Address 0x2000), CreateData (Address 0x2000) vx_5_clPool,
            RemoveDataAt (Address 0x3000), CreateData (Address 0x3000) vx_5_cl_buff])"
proof -
  have "fix_cl_buff_chain example_host (Address 0x3000) 5 =
          Some (None, [RemoveDataAt (Address 0x3000), CreateData (Address 0x3000) vx_5_cl_buff])"
    by (simp add: fix_cl_buff_chain_def example_self_loop)
  moreover have "toAddr example_host (getInt example_host (add (Address 0x2000) 0x14)) = Address 0x3000"
    by (simp add: example_host_def example_memory_def add_def)
  ultimately show ?thesis
    by (simp add: fix_clpool_def Let_def)
       (simp add: example_host_def example_memory_def create_struct_def add_def)
qed

lemma example_fix_netpool:
  "fix_netpool example_host (Address 0x1000) 5 =
     Some (Some \<lparr> pool_addr = 0x1000, pool_table_addr = Some 0x1024,
                   pool_status_addr = Some 0x1024, pool_func_tbl_addr = Some 0x6000,
                   cl_pool_info =
                     [\<lparr> cl_pool_addr = 0x2000, cl_pool_size = Some 0, cl_pool_num = Some 0,
                        cl_pool_num_free = Some 0, cl_pool_usage = Some 0,
                        cl_head_addr = Some 0x3000 \<rparr>] \<rparr>,
           [RemoveDataAt (Address 0x1000), CreateData (Address 0x1000) vx_5_net_pool,
            RemoveDataAt (Address 0x2000), CreateData (Address 0x2000) vx_5_clPool,
            RemoveDataAt (Address 0x3000), CreateData (Address 0x3000) vx_5_cl_buff,
            RemoveDataAt (Address 0x5000), CreateData (Address 0x5000) vx_5_pool_stat,
            RemoveDataAt (Address 0x6000), CreateData (Address 0x6000) vx_5_pool_func_tbl])"
proof -
  have t: "[0..<VX_5_CL_TBL_SIZE example_host] = [0, Suc 0]"
    by (simp add: example_host_def upt_rec)
  have p0: "toAddr example_host (getInt example_host (add (add (Address 0x1000) 0x24) (int 0 * 0x04)))
              = Address 0x2000"
    by (simp add: example_host_def example_memory_def add_def)
  have p1: "toAddr example_host (getInt example_host (add (add (Address 0x1000) 0x24) (int (Suc 0) * 0x04)))
              = Address 0"
    by (simp add: example_host_def example_memory_def add_def)
  have z: "fix_clpool example_host (Address 0) 5 = Some (None, [])"
    by (simp add: fix_clpool_def)
  have cn: "create_struct example_host (Address 0x1000) vx_5_net_pool =
              [RemoveDataAt (Address 0x1000), CreateData (Address 0x1000) vx_5_net_pool]"
    by (simp add: example_host_def create_struct_def add_def)
  have loop: "cl_tbl_loop example_host (add (Address 0x1000) 0x24) 5 [0, Suc 0]
                ([], [RemoveDataAt (Address 0x1000), CreateData (Address 0x1000) vx_5_net_pool]) =
              Some ([\<lparr> cl_pool_addr = 0x2000, cl_pool_size = Some 0, cl_pool_num = Some 0,
                        cl_pool_num_free = Some 0, cl_pool_usage = Some 0,
                        cl_head_addr = Some 0x3000 \<rparr>],
                    [RemoveDataAt (Address 0x1000), CreateData (Address 0x1000) vx_5_net_pool,
                     RemoveDataAt (Address 0x2000), CreateData (Address 0x2000) vx_5_clPool,
                     RemoveDataAt (Address 0x3000), CreateData (Address 0x3000) vx_5_cl_buff])"
    by (simp add: Let_def p0 p1 z example_fix_clpool del: of_nat_Suc of_nat_0)
  have ps: "toAddr example_host (getInt example_host (add (Address 0x1000) 0x50)) = Address 0x5000"
    by (simp add: example_host_def example_memory_def add_def)
  have pf: "toAddr example_host (getInt example_host (add (Address 0x1000) 0x54)) = Address 0x6000"
    by (simp add: example_host_def example_memory_def add_def)
  have cs: "create_struct example_host (Address 0x5000) vx_5_pool_stat =
              [RemoveDataAt (Address 0x5000), CreateData (Address 0x5000) vx_5_pool_stat]"
    by (simp add: example_host_def create_struct_def add_def)
  have ft: "fix_pool_func_tbl example_host (Address 0x6000) 5 =
              (None, [RemoveDataAt (Address 0x6000), CreateData (Address 0x6000) vx_5_pool_func_tbl])"
    by (simp add: fix_pool_func_tbl_def example_host_def example_memory_def create_struct_def
          add_def)
  have pt: "getOffset (add (Address 0x1000) 0x24) = 0x1024"
    by (simp add: add_def)
  show ?thesis
    by (simp add: fix_netpool_def Let_def t cn loop ps pf cs ft pt del: cl_tbl_loop.simps)
qed

theorem fix_netpool_status_addr_witness:
  "getInt example_host (add (Address 0x1000) 0x50) = 0x5000 \<and>
   pool_status_addr (the (fst (the (fix_netpool example_host (Address 0x1000) 5)))) = Some 0x1024 \<and>
   pool_status_addr (the (fst (the (fix_netpool example_host (Address 0x1000) 5)))) \<noteq> Some 0x5000 \<and>
   CreateData (Address 0x5000) vx_5_pool_stat
     \<in> set (snd (the (fix_netpool example_host (Address 0x1000) 5)))"
proof -
  have m: "getInt example_host (add (Address 0x1000) 0x50) = 0x5000"
    "toAddr example_host (getInt example_host (add (Address 0x1000) 0x50)) = Address 0x5000"
    "is_address_in_current_program example_host (Address 0x5000)"
    "createData example_host (Address 0x5000) vx_5_pool_stat"
    by (simp_all add: example_host_def example_memory_def add_def)
  from fix_netpool_status_addr [OF example_fix_netpool] m show ?thesis
    by (simp add: example_fix_netpool)
qed

text \<open>A net pool descriptor whose cluster pool pointers and function table pointer
  are all 0.\<close>

lemma cl_tbl_loop_null:
  "\<forall>i\<in>set ns. toAddr h (getInt h (add pool_table (int i * 0x04))) = Address 0 \<Longrightarrow>
     cl_tbl_loop h pool_table 5 ns acc = Some acc"
proof (induction ns arbitrary: acc)
  case Nil
  then show ?case by simp
next
  case (Cons i ns)
  obtain infos evs where acc: "acc = (infos, evs)" by (cases acc)
  have "fix_clpool h (Address 0) 5 = Some (None, [])"
    by (simp add: fix_clpool_def)
  with Cons show ?case
    unfolding acc by (simp add: Let_def del: of_nat_Suc)
qed

lemma null_pool_fix_netpool:
  assumes tbl: "\<forall>i\<in>set [0..<VX_5_CL_TBL_SIZE h].
                  toAddr h (getInt h (add (add a 0x24) (int i * 0x04))) = Address 0"
      and ft: "toAddr h (getInt h (add a 0x54)) = Address 0"
  shows "fix_netpool h a 5 =
           Some (Some \<lparr> pool_addr = getOffset a, pool_table_addr = Some (getOffset a + 0x24),
                         pool_status_addr = Some (getOffset a + 0x24),
                         pool_func_tbl_addr = Some 0, cl_pool_info = [] \<rparr>,
                 create_struct h a vx_5_net_pool @
                 create_struct h (toAddr h (getInt h (add a 0x50))) vx_5_pool_stat)"
proof -
  have f: "fix_pool_func_tbl h (Address 0) 5 = (None, [])"
    by (simp add: fix_pool_func_tbl_def)
  have o: "getOffset (add a 0x24) = getOffset a + 0x24"
    by (simp add: add_def)
  show ?thesis
    by (simp add: fix_netpool_def Let_def cl_tbl_loop_null[OF tbl] ft f o)
qed

text \<open>
  C10, as stated, fails twice. On the descriptor at \<open>0x6000\<close> of the example host the
  status pointer is 0, outside the program: the status record is located and not typed.
  When the status pointer holds the address of the descriptor's own cluster pool table,
  \<^verbatim>\<open>pool_status_addr\<close> is the address of the status record.
\<close>

theorem fix_netpool_status_untyped_or_equal:
  "toAddr example_host (getInt example_host (add (Address 0x6000) 0x50)) = Address 0 \<and>
   fix_netpool example_host (Address 0x6000) 5 =
     Some (Some \<lparr> pool_addr = 0x6000, pool_table_addr = Some 0x6024,
                   pool_status_addr = Some 0x6024, pool_func_tbl_addr = Some 0,
                   cl_pool_info = [] \<rparr>,
           [RemoveDataAt (Address 0x6000), CreateData (Address 0x6000) vx_5_net_pool]) \<and>
   toAddr coinciding_host (getInt coinciding_host (add (Address 0x6000) 0x50)) = Address 0x6024 \<and>
   fix_netpool coinciding_host (Address 0x6000) 5 =
     Some (Some \<lparr> pool_addr = 0x6000, pool_table_addr = Some 0x6024,
                   pool_status_addr = Some 0x6024, pool_func_tbl_addr = Some 0,
                   cl_pool_info = [] \<rparr>,
           [RemoveDataAt (Address 0x6000), CreateData (Address 0x6000) vx_5_net_pool,
            RemoveDataAt (Address 0x6024), CreateData (Address 0x6024) vx_5_pool_stat])"
proof -
  have a: "toAddr example_host (getInt example_host (add (Address 0x6000) 0x50)) = Address 0"
    "toAddr coinciding_host (getInt coinciding_host (add (Address 0x6000) 0x50)) = Address 0x6024"
    by (simp_all add: coinciding_host_def example_host_def example_memory_def add_def)
  have t1: "\<forall>i\<in>set [0..<VX_5_CL_TBL_SIZE example_host].
              toAddr example_host (getInt example_host (add (add (Address 0x6000) 0x24) (int i * 0x04)))
                = Address 0"
    by (simp add: example_host_def example_memory_def add_def)
  have t2: "\<forall>i\<in>set [0..<VX_5_CL_TBL_SIZE coinciding_host].
              toAddr coinciding_host (getInt coinciding_host (add (add (Address 0x6000) 0x24) (int i * 0x04)))
                = Address 0"
    by (simp add: coinciding_host_def example_host_def add_def)
  have f1: "toAddr example_host (getInt example_host (add (Address 0x6000) 0x54)) = Address 0"
    by (simp add: example_host_def example_memory_def add_def)
  have f2: "toAddr coinciding_host (getInt coinciding_host (add (Address 0x6000) 0x54)) = Address 0"
    by (simp add: coinciding_host_def example_host_def add_def)
  have cs: "create_struct example_host (Address 0x6000) vx_5_net_pool =
              [RemoveDataAt (Address 0x6000), CreateData (Address 0x6000) vx_5_net_pool]"
    "create_struct example_host (Address 0) vx_5_pool_stat = []"
    "create_struct coinciding_host (Address 0x6000) vx_5_net_pool =
              [RemoveDataAt (Address 0x6000), CreateData (Address 0x6000) vx_5_net_pool]"
    "create_struct coinciding_host (Address 0x6024) vx_5_pool_stat =
              [RemoveDataAt (Address 0x6024), CreateData (Address 0x6024) vx_5_pool_stat]"
    by (simp_all add: create_struct_def coinciding_host_def example_host_def add_def)
  from null_pool_fix_netpool[OF t1 f1] null_pool_fix_netpool[OF t2 f2] a cs
  show ?thesis by simp
qed

end
